theory Spec2Isabelle
  imports Complex_Main "HOL-Library.Word"
begin

unbundle bit_operations_syntax

section \<open>The balancing-robot firmware as HOL functions\<close>

text \<open>
  The sketch is an Arduino program: \<open>setup()\<close> runs once, then \<open>loop()\<close> runs forever.
  Its global variables are the fields of the record \<open>robot\<close>; every C function that
  mutates them takes the record and returns it updated.

  Integer types keep their widths: \<open>int16_t\<close> is \<open>16 word\<close>, \<open>int32_t\<close> and
  \<open>unsigned long\<close> are \<open>32 word\<close>. \<open>sint\<close> reads a word as a signed value, \<open>scast\<close>
  sign-extends (the integer promotion of an \<open>int16_t\<close> to \<open>int32_t\<close>), \<open>ucast\<close>
  to a shorter word keeps the low bits (the conversion back to \<open>int16_t\<close>), and
  \<open>signed_drop_bit\<close> is the arithmetic right shift that gcc emits for \<open>>>\<close> on a
  signed operand.

  A \<open>float\<close> is modelled by the real number it denotes: rounding, infinities and NaN
  are outside the model.
\<close>

type_synonym int16_t = "16 word"
type_synonym int32_t = "32 word"
type_synonym ulong = "32 word"

subsection \<open>The hardware and the modules outside the sketch\<close>

text \<open>One result of \<open>accelgyro.getMotion6(&ax, &ay, &az, &gx, &gy, &gz)\<close>.\<close>

record sample6 =
  s_ax :: int16_t
  s_ay :: int16_t
  s_az :: int16_t
  s_gx :: int16_t
  s_gy :: int16_t
  s_gz :: int16_t

text \<open>
  What the motor driver is asked to do. \<open>initMotors\<close>, \<open>runMotors\<close> and
  \<open>stopMotors\<close> are defined outside the sketch; the model records each call.
\<close>

datatype motor_call = InitMotors | RunMotors real | StopMotors

text \<open>
  Everything the sketch calls but does not define is a field of \<open>peripherals\<close>:
  \<^item> \<open>testConnection\<close>: the result of \<open>accelgyro.testConnection()\<close>;
  \<^item> \<open>getMotion6 n\<close>: the six raw readings that the \<open>n\<close>-th call of
    \<open>accelgyro.getMotion6\<close> delivers (counting from 0);
  \<^item> \<open>ticker_due n\<close>: whether the \<open>n\<close>-th call of \<open>ledTicker.update()\<close> finds
    the 100 ms interval elapsed and runs the callback \<open>blinkLed\<close>;
  \<^item> \<open>serial_available\<close>: whether \<open>Serial.available()\<close> is nonzero in \<open>setup\<close>;
  \<^item> \<open>setup_menu\<close>: the configuration menu, acting on the controller's state;
  \<^item> \<open>kalman_new\<close>, \<open>kalman_setAngle\<close>, \<open>kalman_getAngle\<close>: the class
    \<open>Kalman\<close> of Kalman.h, with its object state of type \<open>'k\<close>;
  \<^item> \<open>updatePID\<close>: the PID controller, with its state (gains, setpoint, integral,
    last error) of type \<open>'p\<close>.
\<close>

record ('k, 'p) peripherals =
  testConnection :: bool
  getMotion6 :: "nat \<Rightarrow> sample6"
  ticker_due :: "nat \<Rightarrow> bool"
  serial_available :: bool
  setup_menu :: "'p \<Rightarrow> 'p"
  kalman_new :: 'k
  kalman_setAngle :: "'k \<Rightarrow> real \<Rightarrow> 'k"
  kalman_getAngle :: "'k \<Rightarrow> real \<Rightarrow> real \<Rightarrow> real \<Rightarrow> real \<times> 'k"
  updatePID :: "'p \<Rightarrow> real \<Rightarrow> real \<Rightarrow> real \<times> 'p"

subsection \<open>The state\<close>

text \<open>
  The first sixteen fields are the sketch's global variables, under their names. The
  others are the state of what it drives:
  \<^item> \<open>pid\<close>: the state of the PID module;
  \<^item> \<open>led_pin\<close>: the level last written to \<open>LED_BUILTIN\<close>;
  \<^item> \<open>ticker_on\<close>: whether \<open>ledTicker\<close> is started; \<open>ticker_calls\<close>: how often
    \<open>ledTicker.update()\<close> has been called;
  \<^item> \<open>reads\<close>: how many samples have been read from the sensor;
  \<^item> \<open>clock\<close>: the microseconds since power-on, of which \<open>micros()\<close> returns the
    low 32 bits;
  \<^item> \<open>waits\<close>: the arguments of the calls of \<open>delay\<close>, in milliseconds, oldest
    first;
  \<^item> \<open>motors\<close>: the calls received by the motor driver, oldest first.
\<close>

record ('k, 'p) robot =
  ax :: int16_t
  ay :: int16_t
  az :: int16_t
  gx :: int16_t
  gy :: int16_t
  gz :: int16_t
  ax_offset :: int32_t
  ay_offset :: int32_t
  az_offset :: int32_t
  gx_offset :: int32_t
  gy_offset :: int32_t
  gz_offset :: int32_t
  startPositionIsUp :: bool
  oldTime :: ulong
  KFilter :: 'k
  ledState :: bool
  pid :: 'p
  led_pin :: bool
  ticker_on :: bool
  ticker_calls :: nat
  reads :: nat
  clock :: nat
  waits :: "nat list"
  motors :: "motor_call list"

subsection \<open>Primitives of the Arduino core\<close>

definition micros :: "('k, 'p) robot \<Rightarrow> ulong" where
  "micros w = word_of_nat (clock w)"

text \<open>Time that passes while the processor works: \<open>us\<close> microseconds.\<close>

definition elapse :: "nat \<Rightarrow> ('k, 'p) robot \<Rightarrow> ('k, 'p) robot" where
  "elapse us w = w\<lparr>clock := clock w + us\<rparr>"

definition delay :: "nat \<Rightarrow> ('k, 'p) robot \<Rightarrow> ('k, 'p) robot" where
  "delay ms w = w\<lparr>clock := clock w + 1000 * ms, waits := waits w @ [ms]\<rparr>"

subsection \<open>The status LED\<close>

definition blinkLed :: "('k, 'p) robot \<Rightarrow> ('k, 'p) robot" where
  "blinkLed w = w\<lparr>led_pin := ledState w, ledState := \<not> ledState w\<rparr>"

definition turnOnLed :: "('k, 'p) robot \<Rightarrow> ('k, 'p) robot" where
  "turnOnLed w = w\<lparr>led_pin := True, ledState := True\<rparr>"

definition turnOffLed :: "('k, 'p) robot \<Rightarrow> ('k, 'p) robot" where
  "turnOffLed w = w\<lparr>led_pin := False, ledState := False\<rparr>"

text \<open>
  \<open>ledTicker.update()\<close>: a started ticker whose interval has elapsed runs its
  callback, \<open>blinkLed\<close>.
\<close>

definition ticker_update ::
  "('k, 'p) peripherals \<Rightarrow> ('k, 'p) robot \<Rightarrow> ('k, 'p) robot" where
  "ticker_update hw w =
     (let w' = w\<lparr>ticker_calls := ticker_calls w + 1\<rparr>
      in if ticker_on w \<and> ticker_due hw (ticker_calls w) then blinkLed w' else w')"

subsection \<open>Calibration\<close>

text \<open>The local variables \<open>ax_sum\<close>, ..., \<open>gz_sum\<close> of \<open>calibrate\<close>.\<close>

record axis_sums =
  ax_sum :: int32_t
  ay_sum :: int32_t
  az_sum :: int32_t
  gx_sum :: int32_t
  gy_sum :: int32_t
  gz_sum :: int32_t

text \<open>\<open>accelgyro.getMotion6(&ax, &ay, &az, &gx, &gy, &gz)\<close>: the next sample
  overwrites the six globals.\<close>

definition read_raw ::
  "('k, 'p) peripherals \<Rightarrow> ('k, 'p) robot \<Rightarrow> ('k, 'p) robot" where
  "read_raw hw w =
     (let s = getMotion6 hw (reads w)
      in w\<lparr>ax := s_ax s, ay := s_ay s, az := s_az s,
            gx := s_gx s, gy := s_gy s, gz := s_gz s,
            reads := reads w + 1\<rparr>)"

text \<open>One pass through the body of the \<open>for\<close> loop of \<open>calibrate\<close>.\<close>

definition calibrate_body ::
  "('k, 'p) peripherals \<Rightarrow> axis_sums \<times> ('k, 'p) robot \<Rightarrow> axis_sums \<times> ('k, 'p) robot" where
  "calibrate_body hw = (\<lambda>(s, w).
     (let w1 = ticker_update hw w;
          w2 = read_raw hw w1;
          s' = s\<lparr>ax_sum := ax_sum s + scast (ax w2),
                 ay_sum := ay_sum s + scast (ay w2),
                 az_sum := az_sum s + scast (az w2),
                 gx_sum := gx_sum s + scast (gx w2),
                 gy_sum := gy_sum s + scast (gy w2),
                 gz_sum := gz_sum s + scast (gz w2)\<rparr>
      in (s', delay 5 w2)))"

text \<open>\<open>for (int i = 0; i < 512; i++)\<close>: the body, \<open>n\<close> times.\<close>

fun calibrate_loop ::
  "nat \<Rightarrow> ('k, 'p) peripherals \<Rightarrow> axis_sums \<times> ('k, 'p) robot \<Rightarrow> axis_sums \<times> ('k, 'p) robot" where
  "calibrate_loop 0 hw st = st"
| "calibrate_loop (Suc n) hw st = calibrate_loop n hw (calibrate_body hw st)"

text \<open>Lines 233 and 234: every offset is its sum shifted right by 9.\<close>

definition store_means :: "axis_sums \<times> ('k, 'p) robot \<Rightarrow> ('k, 'p) robot" where
  "store_means = (\<lambda>(s, w).
     w\<lparr>ax_offset := signed_drop_bit 9 (ax_sum s),
       ay_offset := signed_drop_bit 9 (ay_sum s),
       az_offset := signed_drop_bit 9 (az_sum s),
       gx_offset := signed_drop_bit 9 (gx_sum s),
       gy_offset := signed_drop_bit 9 (gy_sum s),
       gz_offset := signed_drop_bit 9 (gz_sum s)\<rparr>)"

text \<open>Lines 240 to 246: the sign of the x mean decides the start position.\<close>

definition orient :: "('k, 'p) robot \<Rightarrow> ('k, 'p) robot" where
  "orient w =
     (if 0 <s ax_offset w
      then w\<lparr>ax_offset := ax_offset w - 16384, startPositionIsUp := True\<rparr>
      else w\<lparr>ax_offset := ax_offset w + 16384, startPositionIsUp := False\<rparr>)"

definition zero_sums :: axis_sums where
  "zero_sums = \<lparr>ax_sum = 0, ay_sum = 0, az_sum = 0, gx_sum = 0, gy_sum = 0, gz_sum = 0\<rparr>"

definition calibrate ::
  "('k, 'p) peripherals \<Rightarrow> ('k, 'p) robot \<Rightarrow> ('k, 'p) robot" where
  "calibrate hw w = orient (store_means (calibrate_loop 512 hw (zero_sums, w)))"

subsection \<open>Reading the sensor in the control loop\<close>

text \<open>
  \<open>readSensor\<close>: the next sample, then \<open>ax -= ax_offset\<close> and so on. The left operand
  is promoted to \<open>int32_t\<close>, the difference is taken there, and the assignment converts
  it back to \<open>int16_t\<close>. With the offsets that calibration computes the 32-bit
  difference cannot overflow; for other offsets the model lets it wrap around.
\<close>

definition readSensor ::
  "('k, 'p) peripherals \<Rightarrow> ('k, 'p) robot \<Rightarrow> ('k, 'p) robot" where
  "readSensor hw w =
     (let w1 = read_raw hw w
      in w1\<lparr>ax := ucast (scast (ax w1) - ax_offset w1),
             ay := ucast (scast (ay w1) - ay_offset w1),
             az := ucast (scast (az w1) - az_offset w1),
             gx := ucast (scast (gx w1) - gx_offset w1),
             gy := ucast (scast (gy w1) - gy_offset w1),
             gz := ucast (scast (gz w1) - gz_offset w1)\<rparr>)"

subsection \<open>The angle from the accelerometer\<close>

text \<open>
  \<open>atan2 y x\<close> of the C library, on the reals: the angle in \<open>(-\<pi>, \<pi>]\<close> of the point
  \<open>(x, y)\<close>, and 0 at the origin. \<open>RAD_TO_DEG\<close> is the Arduino core's constant
  57.2957795..., that is \<open>180 / \<pi>\<close>.
\<close>

definition atan2 :: "real \<Rightarrow> real \<Rightarrow> real" where
  "atan2 y x =
     (if 0 < x then arctan (y / x)
      else if x < 0 then (if 0 \<le> y then arctan (y / x) + pi else arctan (y / x) - pi)
      else if 0 < y then pi / 2
      else if y < 0 then - (pi / 2)
      else 0)"

definition RAD_TO_DEG :: real where
  "RAD_TO_DEG = 180 / pi"

definition getAccAngle :: "real \<Rightarrow> real \<Rightarrow> real" where
  "getAccAngle accX accZ = atan2 accX (- accZ) * RAD_TO_DEG"

subsection \<open>The motors\<close>

definition initMotors :: "('k, 'p) robot \<Rightarrow> ('k, 'p) robot" where
  "initMotors w = w\<lparr>motors := motors w @ [InitMotors]\<rparr>"

definition runMotors :: "real \<Rightarrow> ('k, 'p) robot \<Rightarrow> ('k, 'p) robot" where
  "runMotors v w = w\<lparr>motors := motors w @ [RunMotors v]\<rparr>"

definition stopMotors :: "('k, 'p) robot \<Rightarrow> ('k, 'p) robot" where
  "stopMotors w = w\<lparr>motors := motors w @ [StopMotors]\<rparr>"

text \<open>The macro \<open>abs(x)\<close> of the Arduino core: \<open>((x) > 0 ? (x) : -(x))\<close>.\<close>

definition abs_macro :: "real \<Rightarrow> real" where
  "abs_macro x = (if x > 0 then x else - x)"

text \<open>
  Lines 156 to 160 of \<open>loop\<close>: the motors run only while the robot is near the
  vertical.
\<close>

definition gate :: "real \<Rightarrow> real \<Rightarrow> ('k, 'p) robot \<Rightarrow> ('k, 'p) robot" where
  "gate kalmanAngle pidOutput w =
     (if abs_macro kalmanAngle < 30 then runMotors pidOutput w else stopMotors w)"

subsection \<open>The control loop\<close>

text \<open>The local variables of one run of \<open>loop\<close>.\<close>

record cycle =
  time :: ulong
  dt_usec :: ulong
  dt_sec :: real
  gyroYRate :: real
  accX :: real
  accZ :: real
  accAngle :: real
  kalmanAngle :: real
  pidOutput :: real

text \<open>
  One run of \<open>loop\<close>. \<open>busy\<close> is the time in microseconds that the run takes from
  reading the clock to the final \<open>delay(15)\<close>: the sensor transfer, the arithmetic
  and the printing (\<open>PRINT_DATA\<close> is true in Config.h; what is printed is not
  modelled). The result is the local variables and the new state.
\<close>

definition loop ::
  "('k, 'p) peripherals \<Rightarrow> nat \<Rightarrow> ('k, 'p) robot \<Rightarrow> cycle \<times> ('k, 'p) robot" where
  "loop hw busy w =
     (let t = micros w;
          dt_us = t - oldTime w;
          dt = real (unat dt_us) / 1000000;
          w1 = readSensor hw w;
          rate = real_of_int (sint (gy w1)) / 131.072;
          x = (real_of_int (sint (ax w1)) * 9.81) / 16384.0;
          z = (real_of_int (sint (az w1)) * 9.81) / 16384.0;
          acc = getAccAngle x z;
          (kal, kf) = kalman_getAngle hw (KFilter w1) acc rate dt;
          w2 = w1\<lparr>KFilter := kf\<rparr>;
          (out, ps) = updatePID hw (pid w2) kal dt;
          w3 = w2\<lparr>pid := ps\<rparr>;
          w4 = gate kal out w3;
          w5 = elapse busy w4;
          w6 = w5\<lparr>oldTime := t\<rparr>
      in (\<lparr>time = t, dt_usec = dt_us, dt_sec = dt, gyroYRate = rate, accX = x,
           accZ = z, accAngle = acc, kalmanAngle = kal, pidOutput = out\<rparr>,
          delay 15 w6))"

text \<open>\<open>for (;;) loop();\<close> run for as many cycles as the list of busy times has.\<close>

fun cycles ::
  "('k, 'p) peripherals \<Rightarrow> nat list \<Rightarrow> ('k, 'p) robot \<Rightarrow> ('k, 'p) robot" where
  "cycles hw [] w = w"
| "cycles hw (b # bs) w = cycles hw bs (snd (loop hw b w))"

subsection \<open>Startup\<close>

text \<open>
  \<open>Halted w\<close>: the processor spins in \<open>while(1);\<close> for ever, in state \<open>w\<close>.
  \<open>Running w\<close>: the program has reached state \<open>w\<close> and goes on.
\<close>

datatype 'a progress = Halted 'a | Running 'a

text \<open>
  The function \<open>setup()\<close> of the sketch, with \<open>ENABLE_CONFIG\<close> true as Config.h sets it. The calls that only
  configure the bus, the serial port, the sensor and the pin direction, and the
  printing to the serial port, change nothing that the model records.
\<close>

definition arduino_setup ::
  "('k, 'p) peripherals \<Rightarrow> ('k, 'p) robot \<Rightarrow> ('k, 'p) robot progress" where
  "arduino_setup hw w =
     (let w1 = initMotors w;
          conn_ok = testConnection hw
      in if \<not> conn_ok then Halted w1
         else
           (let w2 = w1\<lparr>ticker_on := True\<rparr>;
                w3 = delay 3000 w2;
                w4 = calibrate hw w3;
                w5 = w4\<lparr>ticker_on := False\<rparr>;
                w6 = turnOffLed w5;
                startAngle = (if startPositionIsUp w6 = True then 90.0 else - 90.0);
                w7 = w6\<lparr>KFilter := kalman_setAngle hw (kalman_new hw) startAngle\<rparr>;
                w8 = delay 3000 w7;
                w9 = (if serial_available hw then w8\<lparr>pid := setup_menu hw (pid w8)\<rparr>
                      else w8);
                w10 = w9\<lparr>oldTime := micros w9\<rparr>
            in Running (turnOnLed w10)))"

text \<open>The whole program: \<open>setup\<close>, then the control loop.\<close>

definition firmware ::
  "('k, 'p) peripherals \<Rightarrow> nat list \<Rightarrow> ('k, 'p) robot \<Rightarrow> ('k, 'p) robot progress" where
  "firmware hw busy w =
     (case arduino_setup hw w of
        Halted w' \<Rightarrow> Halted w'
      | Running w' \<Rightarrow> Running (cycles hw busy w'))"

text \<open>
  The state at power-on: C++ zero-initialises the globals; the Kalman object and the
  PID module start in states of their own.
\<close>

definition power_on :: "'k \<Rightarrow> 'p \<Rightarrow> ('k, 'p) robot" where
  "power_on k p =
     \<lparr>ax = 0, ay = 0, az = 0, gx = 0, gy = 0, gz = 0,
      ax_offset = 0, ay_offset = 0, az_offset = 0,
      gx_offset = 0, gy_offset = 0, gz_offset = 0,
      startPositionIsUp = False, oldTime = 0, KFilter = k, ledState = False,
      pid = p, led_pin = False, ticker_on = False, ticker_calls = 0, reads = 0,
      clock = 0, waits = [], motors = []\<rparr>"

subsection \<open>Notions used to state the properties\<close>

text \<open>
  The sum, in the integers, of one axis over the 512 samples that are read from
  sample number \<open>r\<close> on.
\<close>

definition exact_sum :: "(sample6 \<Rightarrow> int16_t) \<Rightarrow> ('k, 'p) peripherals \<Rightarrow> nat \<Rightarrow> int" where
  "exact_sum axis hw r = (\<Sum>k<512. sint (axis (getMotion6 hw (r + k))))"

text \<open>The six sensor offsets of a state.\<close>

definition offsets ::
  "('k, 'p) robot \<Rightarrow> int32_t \<times> int32_t \<times> int32_t \<times> int32_t \<times> int32_t \<times> int32_t" where
  "offsets w = (ax_offset w, ay_offset w, az_offset w, gx_offset w, gy_offset w, gz_offset w)"

text \<open>
  An integer reduced modulo \<open>2^16\<close> into the range of \<open>int16_t\<close>, from -32768 to
  32767.
\<close>

definition wrap16 :: "int \<Rightarrow> int" where
  "wrap16 d = (d + 32768) mod 65536 - 32768"

text \<open>
  A test bench for concrete runs: the sensor answers, and delivers the same sample
  for ever; \<open>resting a\<close> is the sample of a robot at rest whose x axis reads \<open>a\<close>.
  The stub filter returns the accelerometer's angle, the stub controller a multiple
  of the angle, the ticker is due at every twentieth call, and no key is pressed.
\<close>

definition resting :: "int16_t \<Rightarrow> sample6" where
  "resting a = \<lparr>s_ax = a, s_ay = 0, s_az = 0, s_gx = 0, s_gy = 0, s_gz = 0\<rparr>"

definition bench :: "sample6 \<Rightarrow> (real, unit) peripherals" where
  "bench s =
     \<lparr>testConnection = True, getMotion6 = (\<lambda>n. s), ticker_due = (\<lambda>n. n mod 20 = 0),
      serial_available = False, setup_menu = (\<lambda>p. p), kalman_new = 0,
      kalman_setAngle = (\<lambda>k a. a),
      kalman_getAngle = (\<lambda>k acc rate dt. (acc, acc)),
      updatePID = (\<lambda>p angle dt. (- 10 * angle, p))\<rparr>"

text \<open>The same bench with a sensor whose first sample is \<open>s\<close> and every later one \<open>t\<close>.\<close>

definition bench_first :: "sample6 \<Rightarrow> sample6 \<Rightarrow> (real, unit) peripherals" where
  "bench_first s t = (bench t)\<lparr>getMotion6 := (\<lambda>n. if n = 0 then s else t)\<rparr>"

section \<open>Properties\<close>

subsection \<open>Calibration: the loop and the means\<close>

lemmas body_defs = calibrate_body_def read_raw_def ticker_update_def delay_def blinkLed_def Let_def

lemma body_sums:
  "ax_sum (fst (calibrate_body hw (s, w))) = ax_sum s + scast (s_ax (getMotion6 hw (reads w)))"
  "ay_sum (fst (calibrate_body hw (s, w))) = ay_sum s + scast (s_ay (getMotion6 hw (reads w)))"
  "az_sum (fst (calibrate_body hw (s, w))) = az_sum s + scast (s_az (getMotion6 hw (reads w)))"
  "gx_sum (fst (calibrate_body hw (s, w))) = gx_sum s + scast (s_gx (getMotion6 hw (reads w)))"
  "gy_sum (fst (calibrate_body hw (s, w))) = gy_sum s + scast (s_gy (getMotion6 hw (reads w)))"
  "gz_sum (fst (calibrate_body hw (s, w))) = gz_sum s + scast (s_gz (getMotion6 hw (reads w)))"
  by (simp_all add: body_defs)

lemma body_state:
  "reads (snd (calibrate_body hw (s, w))) = reads w + 1"
  "waits (snd (calibrate_body hw (s, w))) = waits w @ [5]"
  "motors (snd (calibrate_body hw (s, w))) = motors w"
  "ticker_calls (snd (calibrate_body hw (s, w))) = ticker_calls w + 1"
  "ticker_on (snd (calibrate_body hw (s, w))) = ticker_on w"
  "clock (snd (calibrate_body hw (s, w))) = clock w + 5000"
  by (simp_all add: body_defs)

lemma calibrate_loop_acc:
  assumes step: "\<And>s w. F (fst (calibrate_body hw (s, w))) =
                   F s + scast (g (getMotion6 hw (reads w)))"
  shows "F (fst (calibrate_loop n hw (s, w))) =
           F s + (\<Sum>k<n. scast (g (getMotion6 hw (reads w + k))) :: int32_t)"
proof (induction n arbitrary: s w)
  case 0
  show ?case by simp
next
  case (Suc n)
  obtain s1 w1 where b: "calibrate_body hw (s, w) = (s1, w1)"
    by (cases "calibrate_body hw (s, w)")
  have s1: "F s1 = F s + scast (g (getMotion6 hw (reads w)))"
    using step [of s w] b by simp
  have w1: "reads w1 = reads w + 1"
    using body_state(1) [of hw s w] b by simp
  have shift: "(\<Sum>k<Suc n. scast (g (getMotion6 hw (reads w + k))) :: int32_t) =
        scast (g (getMotion6 hw (reads w))) +
        (\<Sum>k<n. scast (g (getMotion6 hw (reads w + 1 + k))))"
    by (simp add: sum.lessThan_Suc_shift del: sum.lessThan_Suc)
  have "F (fst (calibrate_loop (Suc n) hw (s, w))) = F (fst (calibrate_loop n hw (s1, w1)))"
    by (simp add: b)
  also have "\<dots> = F s1 + (\<Sum>k<n. scast (g (getMotion6 hw (reads w1 + k))))"
    by (rule Suc.IH)
  also have "\<dots> = F s + (\<Sum>k<Suc n. scast (g (getMotion6 hw (reads w + k))))"
    by (simp only: s1 w1 shift add.assoc)
  finally show ?case .
qed

lemma calibrate_loop_state:
  "reads (snd (calibrate_loop n hw (s, w))) = reads w + n \<and>
   waits (snd (calibrate_loop n hw (s, w))) = waits w @ replicate n 5 \<and>
   motors (snd (calibrate_loop n hw (s, w))) = motors w \<and>
   ticker_calls (snd (calibrate_loop n hw (s, w))) = ticker_calls w + n \<and>
   clock (snd (calibrate_loop n hw (s, w))) = clock w + 5000 * n"
proof (induction n arbitrary: s w)
  case 0
  show ?case by simp
next
  case (Suc n)
  obtain s1 w1 where b: "calibrate_body hw (s, w) = (s1, w1)"
    by (cases "calibrate_body hw (s, w)")
  have w1: "reads w1 = reads w + 1" "waits w1 = waits w @ [5]" "motors w1 = motors w"
    "ticker_calls w1 = ticker_calls w + 1" "clock w1 = clock w + 5000"
    using body_state [of hw s w] b by simp_all
  show ?case
    by (simp add: b Suc.IH w1 replicate_app_Cons_same)
qed

lemma sint_scast_16_32: "sint (scast (x :: 16 word) :: 32 word) = sint x"
  by (simp add: sint_up_scast is_up)

lemma sint_16_bounds: "- 32768 \<le> sint (x :: 16 word)" "sint (x :: 16 word) < 32768"
  using sint_ge [of x] sint_lt [of x] by simp_all

lemma sint_add_32:
  "- 2147483648 \<le> sint (a :: 32 word) + sint b \<Longrightarrow> sint a + sint b < 2147483648
   \<Longrightarrow> sint (a + b) = sint a + sint b"
  by (simp add: sint_word_add signed_take_bit_int_eq_self)

lemma sum16_bounds:
  "- 32768 * int n \<le> (\<Sum>k<n. sint (f k :: 16 word)) \<and>
   (\<Sum>k<n. sint (f k)) \<le> 32768 * int n"
proof (induction n)
  case 0
  show ?case by simp
next
  case (Suc n)
  from sint_16_bounds [of "f n"] Suc show ?case by simp
qed

lemma sint_sum_scast:
  "(n::nat) \<le> 65535 \<Longrightarrow>
   sint (\<Sum>k<n. scast (f k :: 16 word) :: 32 word) = (\<Sum>k<n. sint (f k))"
proof (induction n)
  case 0
  show ?case by simp
next
  case (Suc n)
  then have ih: "sint (\<Sum>k<n. scast (f k) :: 32 word) = (\<Sum>k<n. sint (f k))"
    and n: "int n \<le> 65534"
    by simp_all
  from sum16_bounds [of n f] n
  have b: "- 2147450880 \<le> (\<Sum>k<n. sint (f k))" "(\<Sum>k<n. sint (f k)) \<le> 2147450880"
    by linarith+
  have lo: "- 2147483648 \<le> sint (\<Sum>k<n. scast (f k) :: 32 word) + sint (scast (f n) :: 32 word)"
    unfolding ih sint_scast_16_32 using b sint_16_bounds [of "f n"] by linarith
  have hi: "sint (\<Sum>k<n. scast (f k) :: 32 word) + sint (scast (f n) :: 32 word) < 2147483648"
    unfolding ih sint_scast_16_32 using b sint_16_bounds [of "f n"] by linarith
  have "sint ((\<Sum>k<n. scast (f k) :: 32 word) + scast (f n)) =
          sint (\<Sum>k<n. scast (f k) :: 32 word) + sint (scast (f n) :: 32 word)"
    by (rule sint_add_32 [OF lo hi])
  then show ?case
    by (simp add: ih sint_scast_16_32)
qed


lemma calibrate_loop_sums:
  "ax_sum (fst (calibrate_loop n hw (s, w))) =
     ax_sum s + (\<Sum>k<n. scast (s_ax (getMotion6 hw (reads w + k))))"
  "ay_sum (fst (calibrate_loop n hw (s, w))) =
     ay_sum s + (\<Sum>k<n. scast (s_ay (getMotion6 hw (reads w + k))))"
  "az_sum (fst (calibrate_loop n hw (s, w))) =
     az_sum s + (\<Sum>k<n. scast (s_az (getMotion6 hw (reads w + k))))"
  "gx_sum (fst (calibrate_loop n hw (s, w))) =
     gx_sum s + (\<Sum>k<n. scast (s_gx (getMotion6 hw (reads w + k))))"
  "gy_sum (fst (calibrate_loop n hw (s, w))) =
     gy_sum s + (\<Sum>k<n. scast (s_gy (getMotion6 hw (reads w + k))))"
  "gz_sum (fst (calibrate_loop n hw (s, w))) =
     gz_sum s + (\<Sum>k<n. scast (s_gz (getMotion6 hw (reads w + k))))"
  by (rule calibrate_loop_acc, rule body_sums)+

lemma sums_exact:
  "sint (ax_sum (fst (calibrate_loop 512 hw (zero_sums, w)))) = exact_sum s_ax hw (reads w)"
  "sint (ay_sum (fst (calibrate_loop 512 hw (zero_sums, w)))) = exact_sum s_ay hw (reads w)"
  "sint (az_sum (fst (calibrate_loop 512 hw (zero_sums, w)))) = exact_sum s_az hw (reads w)"
  "sint (gx_sum (fst (calibrate_loop 512 hw (zero_sums, w)))) = exact_sum s_gx hw (reads w)"
  "sint (gy_sum (fst (calibrate_loop 512 hw (zero_sums, w)))) = exact_sum s_gy hw (reads w)"
  "sint (gz_sum (fst (calibrate_loop 512 hw (zero_sums, w)))) = exact_sum s_gz hw (reads w)"
  by (simp_all only: calibrate_loop_sums exact_sum_def)
     (simp_all add: zero_sums_def sint_sum_scast)

lemma sint_shift9: "sint (signed_drop_bit 9 (x :: 32 word)) = sint x div 512"
  by (simp add: sint_signed_drop_bit_eq drop_bit_eq_div)

lemma store_means_fields:
  "ax_offset (store_means (s, w)) = signed_drop_bit 9 (ax_sum s)"
  "ay_offset (store_means (s, w)) = signed_drop_bit 9 (ay_sum s)"
  "az_offset (store_means (s, w)) = signed_drop_bit 9 (az_sum s)"
  "gx_offset (store_means (s, w)) = signed_drop_bit 9 (gx_sum s)"
  "gy_offset (store_means (s, w)) = signed_drop_bit 9 (gy_sum s)"
  "gz_offset (store_means (s, w)) = signed_drop_bit 9 (gz_sum s)"
  "reads (store_means (s, w)) = reads w"
  "waits (store_means (s, w)) = waits w"
  "motors (store_means (s, w)) = motors w"
  by (simp_all add: store_means_def)

lemma orient_fields:
  "ay_offset (orient w) = ay_offset w"
  "az_offset (orient w) = az_offset w"
  "gx_offset (orient w) = gx_offset w"
  "gy_offset (orient w) = gy_offset w"
  "gz_offset (orient w) = gz_offset w"
  "reads (orient w) = reads w"
  "waits (orient w) = waits w"
  "motors (orient w) = motors w"
  "startPositionIsUp (orient w) = (0 <s ax_offset w)"
  "ax_offset (orient w) = (if 0 <s ax_offset w then ax_offset w - 16384 else ax_offset w + 16384)"
  by (simp_all add: orient_def)

lemma means_exact:
  "sint (ax_offset (store_means (calibrate_loop 512 hw (zero_sums, w)))) =
     exact_sum s_ax hw (reads w) div 512"
  "sint (ay_offset (calibrate hw w)) = exact_sum s_ay hw (reads w) div 512"
  "sint (az_offset (calibrate hw w)) = exact_sum s_az hw (reads w) div 512"
  "sint (gx_offset (calibrate hw w)) = exact_sum s_gx hw (reads w) div 512"
  "sint (gy_offset (calibrate hw w)) = exact_sum s_gy hw (reads w) div 512"
  "sint (gz_offset (calibrate hw w)) = exact_sum s_gz hw (reads w) div 512"
proof -
  obtain s w1 where l: "calibrate_loop 512 hw (zero_sums, w) = (s, w1)"
    by (cases "calibrate_loop 512 hw (zero_sums, w)")
  from sums_exact [of hw w] l
  have "sint (ax_sum s) = exact_sum s_ax hw (reads w)"
       "sint (ay_sum s) = exact_sum s_ay hw (reads w)"
       "sint (az_sum s) = exact_sum s_az hw (reads w)"
       "sint (gx_sum s) = exact_sum s_gx hw (reads w)"
       "sint (gy_sum s) = exact_sum s_gy hw (reads w)"
       "sint (gz_sum s) = exact_sum s_gz hw (reads w)"
    by simp_all
  then show
    "sint (ax_offset (store_means (calibrate_loop 512 hw (zero_sums, w)))) =
       exact_sum s_ax hw (reads w) div 512"
    "sint (ay_offset (calibrate hw w)) = exact_sum s_ay hw (reads w) div 512"
    "sint (az_offset (calibrate hw w)) = exact_sum s_az hw (reads w) div 512"
    "sint (gx_offset (calibrate hw w)) = exact_sum s_gx hw (reads w) div 512"
    "sint (gy_offset (calibrate hw w)) = exact_sum s_gy hw (reads w) div 512"
    "sint (gz_offset (calibrate hw w)) = exact_sum s_gz hw (reads w) div 512"
    by (simp_all only: calibrate_def l orient_fields store_means_fields sint_shift9)
qed

lemma exact_sum_bounds:
  "- 16777216 \<le> exact_sum axis hw r" "exact_sum axis hw r \<le> 16777216"
  using sum16_bounds [of 512 "\<lambda>k. axis (getMotion6 hw (r + k))"]
  by (simp_all add: exact_sum_def)

lemma mean_bounds:
  "- 32768 \<le> exact_sum axis hw r div 512" "exact_sum axis hw r div 512 \<le> 32768"
  using exact_sum_bounds [of axis hw r] by linarith+

lemma exact_sum_const:
  assumes "\<forall>k<512. axis (getMotion6 hw (r + k)) = v"
  shows "exact_sum axis hw r = 512 * sint v"
  using assms by (simp add: exact_sum_def)

lemma calibrate_state:
  "reads (calibrate hw w) = reads w + 512"
  "waits (calibrate hw w) = waits w @ replicate 512 5"
  "motors (calibrate hw w) = motors w"
proof -
  obtain s w1 where l: "calibrate_loop 512 hw (zero_sums, w) = (s, w1)"
    by (cases "calibrate_loop 512 hw (zero_sums, w)")
  from calibrate_loop_state [of 512 hw zero_sums w] l
  have "reads w1 = reads w + 512" "waits w1 = waits w @ replicate 512 5" "motors w1 = motors w"
    by simp_all
  then show "reads (calibrate hw w) = reads w + 512"
    "waits (calibrate hw w) = waits w @ replicate 512 5"
    "motors (calibrate hw w) = motors w"
    by (simp_all only: calibrate_def l orient_fields store_means_fields)
qed

lemma const_mean:
  assumes "\<forall>k<512. axis (getMotion6 hw (r + k)) = v"
  shows "exact_sum axis hw r div 512 = sint v"
  by (simp add: exact_sum_const [OF assms])

lemma gravity_mean_word:
  "0 <s ax_offset (store_means (calibrate_loop 512 hw (zero_sums, w)))
     \<longleftrightarrow> 0 < exact_sum s_ax hw (reads w) div 512"
  by (simp add: word_sless_alt means_exact)

lemma sint_diff_32:
  "- 2147483648 \<le> sint (a :: 32 word) - sint b \<Longrightarrow> sint a - sint b < 2147483648
   \<Longrightarrow> sint (a - b) = sint a - sint b"
  by (simp add: sint_word_diff signed_take_bit_int_eq_self)

lemma gravity_offset:
  "startPositionIsUp (calibrate hw w) = (0 < exact_sum s_ax hw (reads w) div 512)"
  "sint (ax_offset (calibrate hw w)) =
     (if 0 < exact_sum s_ax hw (reads w) div 512
      then exact_sum s_ax hw (reads w) div 512 - 16384
      else exact_sum s_ax hw (reads w) div 512 + 16384)"
proof -
  let ?pre = "store_means (calibrate_loop 512 hw (zero_sums, w))"
  let ?m = "exact_sum s_ax hw (reads w) div 512"
  have m: "sint (ax_offset ?pre) = ?m"
    by (rule means_exact)
  have b: "- 32768 \<le> sint (ax_offset ?pre)" "sint (ax_offset ?pre) \<le> 32768"
    unfolding m using mean_bounds [of s_ax hw "reads w"] by simp_all
  have "sint (ax_offset ?pre - 16384) = sint (ax_offset ?pre) - sint (16384 :: 32 word)"
    by (rule sint_diff_32) (use b in simp_all)
  then have minus: "sint (ax_offset ?pre - 16384) = ?m - 16384"
    by (simp add: m)
  have "sint (ax_offset ?pre + 16384) = sint (ax_offset ?pre) + sint (16384 :: 32 word)"
    by (rule sint_add_32) (use b in simp_all)
  then have plus: "sint (ax_offset ?pre + 16384) = ?m + 16384"
    by (simp add: m)
  show "startPositionIsUp (calibrate hw w) = (0 < ?m)"
    by (simp only: calibrate_def orient_fields gravity_mean_word)
  show "sint (ax_offset (calibrate hw w)) = (if 0 < ?m then ?m - 16384 else ?m + 16384)"
    by (simp only: calibrate_def orient_fields gravity_mean_word minus plus if_distrib [of sint])
qed


subsection \<open>The test bench\<close>

lemma bench_fields:
  "getMotion6 (bench s) n = s" "testConnection (bench s)"
  by (simp_all add: bench_def)

lemma resting_fields:
  "s_ax (resting a) = a" "s_ay (resting a) = 0" "s_az (resting a) = 0"
  "s_gx (resting a) = 0" "s_gy (resting a) = 0" "s_gz (resting a) = 0"
  by (simp_all add: resting_def)

lemma power_on_fields:
  "reads (power_on k p) = 0" "waits (power_on k p) = []" "motors (power_on k p) = []"
  "clock (power_on k p) = 0" "oldTime (power_on k p) = 0"
  by (simp_all add: power_on_def)

subsection \<open>Calibration: what is computed\<close>

lemma bench_first_sample: "getMotion6 (bench_first s t) n = (if n = 0 then s else t)"
  by (simp add: bench_first_def)

lemma exact_sum_first:
  "exact_sum axis (bench_first s t) 0 = sint (axis s) + 511 * sint (axis t)"
proof -
  have "exact_sum axis (bench_first s t) 0 =
      (\<Sum>k<Suc 511. sint (axis (if k = 0 then s else t)))"
    by (simp add: exact_sum_def bench_first_sample)
  also have "\<dots> = sint (axis s) + (\<Sum>k<(511::nat). sint (axis t))"
    by (simp only: sum.lessThan_Suc_shift) simp
  finally show ?thesis by simp
qed

lemma floor_mean:
  fixes s :: int
  shows "512 * (s div 512) \<le> s" and "s < 512 * (s div 512) + 512"
    and "512 dvd s \<Longrightarrow> 512 * (s div 512) = s"
proof -
  have e: "s = 512 * (s div 512) + s mod 512"
    by simp
  have m: "0 \<le> s mod 512" "s mod 512 < 512"
    by simp_all
  show "512 * (s div 512) \<le> s" and "s < 512 * (s div 512) + 512"
    using e m by linarith+
  show "512 * (s div 512) = s" if "512 dvd s"
    using that by simp
qed

text \<open>
  Claim C2, amended. \<open>calibrate\<close> reads exactly 512 samples and calls \<open>delay(5)\<close>
  after each of them. No sum overflows: each of the six sums is the sum of its axis
  over the 512 samples. Every mean is that sum shifted right by 9, which is the sum
  divided by 512 and rounded towards minus infinity: 512 times the mean is at most the
  sum and more than the sum minus 512, and equals the sum exactly when 512 divides the
  sum. The offsets of the five axes other than x are these means; the x offset is the
  x mean (the value stored at line 233) minus 16384 when that mean is positive and
  plus 16384 otherwise. If all 512 samples of one of the five other axes are \<open>v\<close>,
  its offset is \<open>v\<close>.
\<close>

theorem calibrate_floor_means:
  "reads (calibrate hw w) = reads w + 512 \<and>
   waits (calibrate hw w) = waits w @ replicate 512 5 \<and>
   sint (ax_sum (fst (calibrate_loop 512 hw (zero_sums, w)))) = exact_sum s_ax hw (reads w) \<and>
   sint (ay_sum (fst (calibrate_loop 512 hw (zero_sums, w)))) = exact_sum s_ay hw (reads w) \<and>
   sint (az_sum (fst (calibrate_loop 512 hw (zero_sums, w)))) = exact_sum s_az hw (reads w) \<and>
   sint (gx_sum (fst (calibrate_loop 512 hw (zero_sums, w)))) = exact_sum s_gx hw (reads w) \<and>
   sint (gy_sum (fst (calibrate_loop 512 hw (zero_sums, w)))) = exact_sum s_gy hw (reads w) \<and>
   sint (gz_sum (fst (calibrate_loop 512 hw (zero_sums, w)))) = exact_sum s_gz hw (reads w) \<and>
   sint (ax_offset (store_means (calibrate_loop 512 hw (zero_sums, w)))) =
     exact_sum s_ax hw (reads w) div 512 \<and>
   sint (ax_offset (calibrate hw w)) =
     (if 0 < exact_sum s_ax hw (reads w) div 512
      then exact_sum s_ax hw (reads w) div 512 - 16384
      else exact_sum s_ax hw (reads w) div 512 + 16384) \<and>
   sint (ay_offset (calibrate hw w)) = exact_sum s_ay hw (reads w) div 512 \<and>
   sint (az_offset (calibrate hw w)) = exact_sum s_az hw (reads w) div 512 \<and>
   sint (gx_offset (calibrate hw w)) = exact_sum s_gx hw (reads w) div 512 \<and>
   sint (gy_offset (calibrate hw w)) = exact_sum s_gy hw (reads w) div 512 \<and>
   sint (gz_offset (calibrate hw w)) = exact_sum s_gz hw (reads w) div 512 \<and>
   512 * sint (ay_offset (calibrate hw w)) \<le> exact_sum s_ay hw (reads w) \<and>
   exact_sum s_ay hw (reads w) < 512 * sint (ay_offset (calibrate hw w)) + 512 \<and>
   (512 dvd exact_sum s_ay hw (reads w) \<longrightarrow>
      512 * sint (ay_offset (calibrate hw w)) = exact_sum s_ay hw (reads w)) \<and>
   512 * sint (az_offset (calibrate hw w)) \<le> exact_sum s_az hw (reads w) \<and>
   exact_sum s_az hw (reads w) < 512 * sint (az_offset (calibrate hw w)) + 512 \<and>
   (512 dvd exact_sum s_az hw (reads w) \<longrightarrow>
      512 * sint (az_offset (calibrate hw w)) = exact_sum s_az hw (reads w)) \<and>
   512 * sint (gx_offset (calibrate hw w)) \<le> exact_sum s_gx hw (reads w) \<and>
   exact_sum s_gx hw (reads w) < 512 * sint (gx_offset (calibrate hw w)) + 512 \<and>
   (512 dvd exact_sum s_gx hw (reads w) \<longrightarrow>
      512 * sint (gx_offset (calibrate hw w)) = exact_sum s_gx hw (reads w)) \<and>
   512 * sint (gy_offset (calibrate hw w)) \<le> exact_sum s_gy hw (reads w) \<and>
   exact_sum s_gy hw (reads w) < 512 * sint (gy_offset (calibrate hw w)) + 512 \<and>
   (512 dvd exact_sum s_gy hw (reads w) \<longrightarrow>
      512 * sint (gy_offset (calibrate hw w)) = exact_sum s_gy hw (reads w)) \<and>
   512 * sint (gz_offset (calibrate hw w)) \<le> exact_sum s_gz hw (reads w) \<and>
   exact_sum s_gz hw (reads w) < 512 * sint (gz_offset (calibrate hw w)) + 512 \<and>
   (512 dvd exact_sum s_gz hw (reads w) \<longrightarrow>
      512 * sint (gz_offset (calibrate hw w)) = exact_sum s_gz hw (reads w)) \<and>
   ((\<forall>k<512. s_ay (getMotion6 hw (reads w + k)) = v) \<longrightarrow>
      sint (ay_offset (calibrate hw w)) = sint v) \<and>
   ((\<forall>k<512. s_az (getMotion6 hw (reads w + k)) = v) \<longrightarrow>
      sint (az_offset (calibrate hw w)) = sint v) \<and>
   ((\<forall>k<512. s_gx (getMotion6 hw (reads w + k)) = v) \<longrightarrow>
      sint (gx_offset (calibrate hw w)) = sint v) \<and>
   ((\<forall>k<512. s_gy (getMotion6 hw (reads w + k)) = v) \<longrightarrow>
      sint (gy_offset (calibrate hw w)) = sint v) \<and>
   ((\<forall>k<512. s_gz (getMotion6 hw (reads w + k)) = v) \<longrightarrow>
      sint (gz_offset (calibrate hw w)) = sint v)"
  by (intro conjI impI)
     (simp_all only: calibrate_state sums_exact means_exact const_mean gravity_offset floor_mean)

theorem calibrate_floor_means_witness:
  "sint (gy_offset (calibrate (bench \<lparr>s_ax = 16000, s_ay = 3, s_az = - 40, s_gx = 7,
        s_gy = - 25, s_gz = 1\<rparr>) (power_on 0 ()))) = - 25 \<and>
   waits (calibrate (bench \<lparr>s_ax = 16000, s_ay = 3, s_az = - 40, s_gx = 7,
        s_gy = - 25, s_gz = 1\<rparr>) (power_on 0 ())) = replicate 512 5"
  using calibrate_floor_means [of "bench \<lparr>s_ax = 16000, s_ay = 3, s_az = - 40, s_gx = 7,
        s_gy = - 25, s_gz = 1\<rparr>" "power_on 0 ()" "- 25"]
  by (simp add: bench_fields power_on_fields)

text \<open>
  Claim C2 as stated makes every offset the arithmetic mean of its axis, by an exact
  division. On the bench whose first sample reads \<open>ay = -1\<close> and whose other 511
  samples read 0, the y sum is -1 and the y offset is -1, not the mean \<open>-1/512\<close>;
  and the x sum is 0 while the x offset is 16384.
\<close>

theorem shifted_sum_is_not_the_mean:
  "exact_sum s_ay
     (bench_first \<lparr>s_ax = 0, s_ay = - 1, s_az = 0, s_gx = 0, s_gy = 0, s_gz = 0\<rparr> (resting 0))
     (reads (power_on (0::real) ())) = - 1 \<and>
   sint (ay_offset (calibrate
     (bench_first \<lparr>s_ax = 0, s_ay = - 1, s_az = 0, s_gx = 0, s_gy = 0, s_gz = 0\<rparr> (resting 0))
     (power_on 0 ()))) = - 1 \<and>
   real_of_int (sint (ay_offset (calibrate
     (bench_first \<lparr>s_ax = 0, s_ay = - 1, s_az = 0, s_gx = 0, s_gy = 0, s_gz = 0\<rparr> (resting 0))
     (power_on 0 ())))) \<noteq> - 1 / 512 \<and>
   exact_sum s_ax
     (bench_first \<lparr>s_ax = 0, s_ay = - 1, s_az = 0, s_gx = 0, s_gy = 0, s_gz = 0\<rparr> (resting 0))
     (reads (power_on (0::real) ())) = 0 \<and>
   sint (ax_offset (calibrate
     (bench_first \<lparr>s_ax = 0, s_ay = - 1, s_az = 0, s_gx = 0, s_gy = 0, s_gz = 0\<rparr> (resting 0))
     (power_on 0 ()))) = 16384"
proof -
  let ?H = "bench_first \<lparr>s_ax = 0, s_ay = - 1, s_az = 0, s_gx = 0, s_gy = 0, s_gz = 0\<rparr> (resting 0)"
  let ?P = "power_on (0::real) ()"
  have r: "reads ?P = 0"
    by (rule power_on_fields)
  have y: "exact_sum s_ay ?H (reads ?P) = - 1"
    unfolding r exact_sum_first by (simp add: resting_fields)
  have x: "exact_sum s_ax ?H (reads ?P) = 0"
    unfolding r exact_sum_first by (simp add: resting_fields)
  have oy: "sint (ay_offset (calibrate ?H ?P)) = - 1"
    unfolding means_exact y by simp
  have ox: "sint (ax_offset (calibrate ?H ?P)) = 16384"
    unfolding gravity_offset x by simp
  have "real_of_int (sint (ay_offset (calibrate ?H ?P))) \<noteq> - 1 / 512"
    unfolding oy by simp
  with y x oy ox show ?thesis
    by (intro conjI)
qed



subsection \<open>Calibration depends on the samples only\<close>

lemma calibrate_words:
  "ax_offset (calibrate hw w) =
     (if 0 <s signed_drop_bit 9 (\<Sum>k<512. scast (s_ax (getMotion6 hw (reads w + k))) :: int32_t)
      then signed_drop_bit 9 (\<Sum>k<512. scast (s_ax (getMotion6 hw (reads w + k)))) - 16384
      else signed_drop_bit 9 (\<Sum>k<512. scast (s_ax (getMotion6 hw (reads w + k)))) + 16384)"
  "ay_offset (calibrate hw w) =
     signed_drop_bit 9 (\<Sum>k<512. scast (s_ay (getMotion6 hw (reads w + k))))"
  "az_offset (calibrate hw w) =
     signed_drop_bit 9 (\<Sum>k<512. scast (s_az (getMotion6 hw (reads w + k))))"
  "gx_offset (calibrate hw w) =
     signed_drop_bit 9 (\<Sum>k<512. scast (s_gx (getMotion6 hw (reads w + k))))"
  "gy_offset (calibrate hw w) =
     signed_drop_bit 9 (\<Sum>k<512. scast (s_gy (getMotion6 hw (reads w + k))))"
  "gz_offset (calibrate hw w) =
     signed_drop_bit 9 (\<Sum>k<512. scast (s_gz (getMotion6 hw (reads w + k))))"
  "startPositionIsUp (calibrate hw w) =
     (0 <s signed_drop_bit 9 (\<Sum>k<512. scast (s_ax (getMotion6 hw (reads w + k))) :: int32_t))"
proof -
  obtain s w1 where l: "calibrate_loop 512 hw (zero_sums, w) = (s, w1)"
    by (cases "calibrate_loop 512 hw (zero_sums, w)")
  from calibrate_loop_sums [of 512 hw zero_sums w] l
  have s: "ax_sum s = (\<Sum>k<512. scast (s_ax (getMotion6 hw (reads w + k))))"
    "ay_sum s = (\<Sum>k<512. scast (s_ay (getMotion6 hw (reads w + k))))"
    "az_sum s = (\<Sum>k<512. scast (s_az (getMotion6 hw (reads w + k))))"
    "gx_sum s = (\<Sum>k<512. scast (s_gx (getMotion6 hw (reads w + k))))"
    "gy_sum s = (\<Sum>k<512. scast (s_gy (getMotion6 hw (reads w + k))))"
    "gz_sum s = (\<Sum>k<512. scast (s_gz (getMotion6 hw (reads w + k))))"
    by (simp_all add: zero_sums_def)
  show "ax_offset (calibrate hw w) =
     (if 0 <s signed_drop_bit 9 (\<Sum>k<512. scast (s_ax (getMotion6 hw (reads w + k))) :: int32_t)
      then signed_drop_bit 9 (\<Sum>k<512. scast (s_ax (getMotion6 hw (reads w + k)))) - 16384
      else signed_drop_bit 9 (\<Sum>k<512. scast (s_ax (getMotion6 hw (reads w + k)))) + 16384)"
  "ay_offset (calibrate hw w) =
     signed_drop_bit 9 (\<Sum>k<512. scast (s_ay (getMotion6 hw (reads w + k))))"
  "az_offset (calibrate hw w) =
     signed_drop_bit 9 (\<Sum>k<512. scast (s_az (getMotion6 hw (reads w + k))))"
  "gx_offset (calibrate hw w) =
     signed_drop_bit 9 (\<Sum>k<512. scast (s_gx (getMotion6 hw (reads w + k))))"
  "gy_offset (calibrate hw w) =
     signed_drop_bit 9 (\<Sum>k<512. scast (s_gy (getMotion6 hw (reads w + k))))"
  "gz_offset (calibrate hw w) =
     signed_drop_bit 9 (\<Sum>k<512. scast (s_gz (getMotion6 hw (reads w + k))))"
  "startPositionIsUp (calibrate hw w) =
     (0 <s signed_drop_bit 9 (\<Sum>k<512. scast (s_ax (getMotion6 hw (reads w + k))) :: int32_t))"
    by (simp_all only: calibrate_def l orient_fields store_means_fields s)
qed

lemma calibrate_cong:
  assumes "\<forall>k<512. getMotion6 hw (reads w + k) = getMotion6 hw' (reads w' + k)"
  shows "offsets (calibrate hw w) = offsets (calibrate hw' w')"
    and "startPositionIsUp (calibrate hw w) = startPositionIsUp (calibrate hw' w')"
proof -
  have e: "(\<Sum>k<512. scast (axis (getMotion6 hw (reads w + k))) :: int32_t) =
      (\<Sum>k<512. scast (axis (getMotion6 hw' (reads w' + k))))"
    for axis :: "sample6 \<Rightarrow> int16_t"
    using assms by (intro sum.cong) simp_all
  show "offsets (calibrate hw w) = offsets (calibrate hw' w')"
    and "startPositionIsUp (calibrate hw w) = startPositionIsUp (calibrate hw' w')"
    by (simp_all only: offsets_def calibrate_words
          e [of s_ax] e [of s_ay] e [of s_az] e [of s_gx] e [of s_gy] e [of s_gz])
qed

text \<open>
  Claim C9. Two calibration runs that read the same 512 samples compute the same six
  offsets and the same start position, whatever else differs between them: the
  schedule of the ticker, whether the ticker is started, the state of the LED. So
  the blinking, which writes \<open>led_pin\<close> and \<open>ledState\<close> only, has no effect on
  the result.
\<close>

theorem blink_does_not_affect_calibration:
  "(\<forall>k<512. getMotion6 hw (reads w + k) = getMotion6 hw' (reads w' + k)) \<longrightarrow>
     offsets (calibrate hw w) = offsets (calibrate hw' w') \<and>
     startPositionIsUp (calibrate hw w) = startPositionIsUp (calibrate hw' w')"
  using calibrate_cong [of hw w hw' w'] by blast

theorem blink_does_not_affect_calibration_witness:
  "offsets (calibrate (bench (resting 16000)) ((power_on 0 ())\<lparr>ticker_on := True\<rparr>)) =
     offsets (calibrate ((bench (resting 16000))\<lparr>ticker_due := (\<lambda>n. False)\<rparr>)
                (power_on 0 ())) \<and>
   startPositionIsUp (calibrate (bench (resting 16000)) ((power_on 0 ())\<lparr>ticker_on := True\<rparr>)) =
     startPositionIsUp (calibrate ((bench (resting 16000))\<lparr>ticker_due := (\<lambda>n. False)\<rparr>)
                (power_on 0 ()))"
  using blink_does_not_affect_calibration
    [of "bench (resting 16000)" "(power_on 0 ())\<lparr>ticker_on := True\<rparr>"
        "(bench (resting 16000))\<lparr>ticker_due := (\<lambda>n. False)\<rparr>" "power_on 0 ()"]
  by (simp add: bench_def)


subsection \<open>Startup\<close>

lemma setup_halts:
  "\<not> testConnection hw \<Longrightarrow> arduino_setup hw w = Halted (initMotors w)"
  by (simp add: arduino_setup_def Let_def)

lemma setup_runs:
  assumes "testConnection hw"
  shows "\<exists>w'. arduino_setup hw w = Running w' \<and>
           offsets w' = offsets (calibrate hw w) \<and>
           startPositionIsUp w' = startPositionIsUp (calibrate hw w) \<and>
           KFilter w' = kalman_setAngle hw (kalman_new hw)
                          (if startPositionIsUp (calibrate hw w) then 90 else - 90) \<and>
           reads w' = reads w + 512 \<and>
           motors w' = motors w @ [InitMotors]"
proof -
  let ?w0 = "delay 3000 ((initMotors w)\<lparr>ticker_on := True\<rparr>)"
  have r: "reads ?w0 = reads w" and m: "motors ?w0 = motors w @ [InitMotors]"
    by (simp_all add: delay_def initMotors_def)
  have same: "offsets (calibrate hw ?w0) = offsets (calibrate hw w)"
    "startPositionIsUp (calibrate hw ?w0) = startPositionIsUp (calibrate hw w)"
    by (rule calibrate_cong, simp add: r)+
  show ?thesis
    using assms same calibrate_state [of hw ?w0] r m
    by (simp add: arduino_setup_def Let_def turnOnLed_def turnOffLed_def delay_def offsets_def)
qed

lemma flat_down:
  assumes "\<forall>k<512. getMotion6 hw (reads w + k) =
             \<lparr>s_ax = - 16200, s_ay = 0, s_az = 0, s_gx = 0, s_gy = 0, s_gz = 0\<rparr>"
  shows "sint (ax_offset (calibrate hw w)) = 184" and "\<not> startPositionIsUp (calibrate hw w)"
proof -
  have "\<forall>k<512. s_ax (getMotion6 hw (reads w + k)) = - 16200"
    using assms by simp
  then have m: "exact_sum s_ax hw (reads w) div 512 = sint (- 16200 :: int16_t)"
    by (rule const_mean)
  have v: "sint (- 16200 :: int16_t) = - 16200" by simp
  show "sint (ax_offset (calibrate hw w)) = 184" and "\<not> startPositionIsUp (calibrate hw w)"
    by (simp_all add: gravity_offset m v)
qed

text \<open>
  Claim C4, amended. When the sensor answers and each of the 512 samples reads
  \<open>ax = -16200\<close> and 0 on the other axes, the x offset is 184, which is
  \<open>-16200 + 16384\<close>, the start position is down, and startup seeds the filter with
  \<open>-90\<close> degrees.
\<close>

theorem calibrated_flat_down:
  "testConnection hw \<and>
   (\<forall>k<512. getMotion6 hw (reads w + k) =
             \<lparr>s_ax = - 16200, s_ay = 0, s_az = 0, s_gx = 0, s_gy = 0, s_gz = 0\<rparr>) \<longrightarrow>
   sint (ax_offset (calibrate hw w)) = 184 \<and>
   \<not> startPositionIsUp (calibrate hw w) \<and>
   (\<exists>w'. arduino_setup hw w = Running w' \<and>
         sint (ax_offset w') = 184 \<and>
         \<not> startPositionIsUp w' \<and>
         KFilter w' = kalman_setAngle hw (kalman_new hw) (- 90))"
proof (intro impI, elim conjE)
  assume c: "testConnection hw"
    and s: "\<forall>k<512. getMotion6 hw (reads w + k) =
             \<lparr>s_ax = - 16200, s_ay = 0, s_az = 0, s_gx = 0, s_gy = 0, s_gz = 0\<rparr>"
  from setup_runs [OF c, of w] obtain w' where
    w': "arduino_setup hw w = Running w'" "offsets w' = offsets (calibrate hw w)"
      "startPositionIsUp w' = startPositionIsUp (calibrate hw w)"
      "KFilter w' = kalman_setAngle hw (kalman_new hw)
                          (if startPositionIsUp (calibrate hw w) then 90 else - 90)"
    by blast
  from w'(2) have ax: "ax_offset w' = ax_offset (calibrate hw w)"
    by (simp add: offsets_def)
  show "sint (ax_offset (calibrate hw w)) = 184 \<and>
   \<not> startPositionIsUp (calibrate hw w) \<and>
   (\<exists>w'. arduino_setup hw w = Running w' \<and>
         sint (ax_offset w') = 184 \<and>
         \<not> startPositionIsUp w' \<and>
         KFilter w' = kalman_setAngle hw (kalman_new hw) (- 90))"
    using flat_down [OF s] w' ax by simp
qed

theorem calibrated_flat_down_witness:
  "sint (ax_offset (calibrate (bench (resting (- 16200))) (power_on 0 ()))) = 184 \<and>
   \<not> startPositionIsUp (calibrate (bench (resting (- 16200))) (power_on 0 ())) \<and>
   (\<exists>w'. arduino_setup (bench (resting (- 16200))) (power_on 0 ()) = Running w' \<and>
         sint (ax_offset w') = 184 \<and>
         \<not> startPositionIsUp w' \<and>
         KFilter w' = - 90)"
  using calibrated_flat_down [of "bench (resting (- 16200))" "power_on 0 ()"]
  by (simp add: bench_def resting_def)

text \<open>
  Claim C4 as stated gives 200 for the x offset of this run. On the test bench the
  offset is 184.
\<close>

theorem flat_down_offset_is_not_200:
  "sint (ax_offset (calibrate (bench (resting (- 16200))) (power_on (0::real) ()))) \<noteq> 200"
proof -
  have "sint (ax_offset (calibrate (bench (resting (- 16200))) (power_on (0::real) ()))) = 184"
    by (rule flat_down) (simp add: bench_def resting_def)
  then show ?thesis by simp
qed

subsection \<open>Offset correction in the control loop\<close>

lemma ucast_is_scast_32_16: "(ucast (w :: 32 word) :: 16 word) = scast w"
  by (simp add: down_cast_same [symmetric] is_down)

lemma sint_ucast_32_16:
  "sint (ucast (w :: 32 word) :: 16 word) = signed_take_bit 15 (sint w)"
  by (simp only: ucast_is_scast_32_16 scast_eq sint_sbintrunc') simp

lemma signed_take_bit_15: "signed_take_bit 15 (k::int) = wrap16 k"
  by (simp only: signed_take_bit_eq_take_bit_shift take_bit_eq_mod wrap16_def) simp

lemma sint_narrow_diff:
  "sint (ucast (scast (r :: 16 word) - (off :: 32 word)) :: 16 word) = wrap16 (sint r - sint off)"
  apply (simp only: sint_ucast_32_16 sint_word_diff sint_scast_16_32 signed_take_bit_signed_take_bit)
  apply (simp add: signed_take_bit_15)
  done

lemma wrap16_range: "- 32768 \<le> wrap16 d" "wrap16 d \<le> 32767"
  by (simp_all add: wrap16_def)

lemma wrap16_id_iff: "wrap16 d = d \<longleftrightarrow> - 32768 \<le> d \<and> d \<le> 32767"
proof
  assume "wrap16 d = d"
  with wrap16_range [of d] show "- 32768 \<le> d \<and> d \<le> 32767" by simp
next
  assume "- 32768 \<le> d \<and> d \<le> 32767"
  then show "wrap16 d = d" by (simp add: wrap16_def)
qed

lemma wrap16_cong: "(wrap16 d - d) mod 65536 = 0"
proof -
  have "wrap16 d - d = (d + 32768) mod 65536 - (d + 32768)"
    by (simp add: wrap16_def)
  also have "\<dots> mod 65536 = ((d + 32768) - (d + 32768)) mod 65536"
    by (rule mod_diff_left_eq)
  finally show ?thesis by simp
qed

lemma readSensor_values:
  "sint (ax (readSensor hw w)) = wrap16 (sint (s_ax (getMotion6 hw (reads w))) - sint (ax_offset w))"
  "sint (ay (readSensor hw w)) = wrap16 (sint (s_ay (getMotion6 hw (reads w))) - sint (ay_offset w))"
  "sint (az (readSensor hw w)) = wrap16 (sint (s_az (getMotion6 hw (reads w))) - sint (az_offset w))"
  "sint (gx (readSensor hw w)) = wrap16 (sint (s_gx (getMotion6 hw (reads w))) - sint (gx_offset w))"
  "sint (gy (readSensor hw w)) = wrap16 (sint (s_gy (getMotion6 hw (reads w))) - sint (gy_offset w))"
  "sint (gz (readSensor hw w)) = wrap16 (sint (s_gz (getMotion6 hw (reads w))) - sint (gz_offset w))"
  by (simp_all add: readSensor_def read_raw_def Let_def sint_narrow_diff)

lemma readSensor_state:
  "offsets (readSensor hw w) = offsets w"
  "reads (readSensor hw w) = reads w + 1"
  "motors (readSensor hw w) = motors w"
  "clock (readSensor hw w) = clock w"
  "oldTime (readSensor hw w) = oldTime w"
  "KFilter (readSensor hw w) = KFilter w"
  "pid (readSensor hw w) = pid w"
  by (simp_all add: readSensor_def read_raw_def Let_def offsets_def)

text \<open>
  Claim C10. After \<open>readSensor\<close>, each of the six globals holds the difference of
  the raw reading and its offset, taken in the integers and reduced modulo \<open>2^16\<close>
  into the range of \<open>int16_t\<close>. The reduced value is the difference itself exactly
  when the difference lies between -32768 and 32767; outside it the stored value
  differs from the difference by a multiple of 65536.
\<close>

theorem readSensor_wraps:
  "sint (ax (readSensor hw w)) = wrap16 (sint (s_ax (getMotion6 hw (reads w))) - sint (ax_offset w)) \<and>
   sint (ay (readSensor hw w)) = wrap16 (sint (s_ay (getMotion6 hw (reads w))) - sint (ay_offset w)) \<and>
   sint (az (readSensor hw w)) = wrap16 (sint (s_az (getMotion6 hw (reads w))) - sint (az_offset w)) \<and>
   sint (gx (readSensor hw w)) = wrap16 (sint (s_gx (getMotion6 hw (reads w))) - sint (gx_offset w)) \<and>
   sint (gy (readSensor hw w)) = wrap16 (sint (s_gy (getMotion6 hw (reads w))) - sint (gy_offset w)) \<and>
   sint (gz (readSensor hw w)) = wrap16 (sint (s_gz (getMotion6 hw (reads w))) - sint (gz_offset w)) \<and>
   (wrap16 d = d \<longleftrightarrow> - 32768 \<le> d \<and> d \<le> 32767) \<and>
   - 32768 \<le> wrap16 d \<and> wrap16 d \<le> 32767 \<and> (wrap16 d - d) mod 65536 = 0"
  by (simp only: readSensor_values wrap16_id_iff wrap16_range wrap16_cong)

theorem readSensor_wraps_witness:
  "sint (ax (readSensor (bench (resting (- 32768))) ((power_on 0 ())\<lparr>ax_offset := 184\<rparr>))) = 32584 \<and>
   wrap16 (- 32952) \<noteq> - 32952"
proof -
  have raw: "sint (s_ax (getMotion6 (bench (resting (- 32768)))
               (reads ((power_on (0::real) ())\<lparr>ax_offset := 184\<rparr>)))) = - 32768"
    by (simp add: bench_fields resting_fields)
  have off: "sint (ax_offset ((power_on (0::real) ())\<lparr>ax_offset := 184\<rparr>)) = 184"
    by simp
  have w: "wrap16 (- 32952) = 32584"
    by (simp add: wrap16_def)
  have "sint (ax (readSensor (bench (resting (- 32768))) ((power_on 0 ())\<lparr>ax_offset := 184\<rparr>))) =
          wrap16 (- 32768 - 184)"
    using readSensor_wraps [of "bench (resting (- 32768))"
        "(power_on 0 ())\<lparr>ax_offset := 184\<rparr>" 0, THEN conjunct1]
    by (simp only: raw off)
  then show ?thesis
    using w by simp
qed


subsection \<open>One control cycle\<close>

lemma gate_motors:
  "gate a c w = w\<lparr>motors := motors w @ [if \<bar>a\<bar> < 30 then RunMotors c else StopMotors]\<rparr>"
  by (simp add: gate_def abs_macro_def runMotors_def stopMotors_def abs_if)

lemma control_locals:
  "time (fst (loop hw b w)) = micros w"
  "dt_usec (fst (loop hw b w)) = micros w - oldTime w"
  "dt_sec (fst (loop hw b w)) = real (unat (micros w - oldTime w)) / 1000000"
  "gyroYRate (fst (loop hw b w)) = real_of_int (sint (gy (readSensor hw w))) / 131.072"
  "accX (fst (loop hw b w)) = real_of_int (sint (ax (readSensor hw w))) * 9.81 / 16384"
  "accZ (fst (loop hw b w)) = real_of_int (sint (az (readSensor hw w))) * 9.81 / 16384"
  "accAngle (fst (loop hw b w)) = getAccAngle (accX (fst (loop hw b w))) (accZ (fst (loop hw b w)))"
  "kalmanAngle (fst (loop hw b w)) =
     fst (kalman_getAngle hw (KFilter w) (accAngle (fst (loop hw b w)))
            (gyroYRate (fst (loop hw b w))) (dt_sec (fst (loop hw b w))))"
  "pidOutput (fst (loop hw b w)) =
     fst (updatePID hw (pid w) (kalmanAngle (fst (loop hw b w))) (dt_sec (fst (loop hw b w))))"
  by (simp_all add: loop_def Let_def split_def readSensor_state)

lemma control_state:
  "offsets (snd (loop hw b w)) = offsets w"
  "reads (snd (loop hw b w)) = reads w + 1"
  "oldTime (snd (loop hw b w)) = micros w"
  "clock (snd (loop hw b w)) = clock w + b + 15000"
  "motors (snd (loop hw b w)) =
     motors w @ [if \<bar>kalmanAngle (fst (loop hw b w))\<bar> < 30
                 then RunMotors (pidOutput (fst (loop hw b w))) else StopMotors]"
  using readSensor_state [of hw w]
  by (simp_all add: loop_def Let_def split_def gate_motors delay_def elapse_def offsets_def)


lemma cycles_state:
  "offsets (cycles hw bs w) = offsets w"
  "reads (cycles hw bs w) = reads w + length bs"
  "length (motors (cycles hw bs w)) = length (motors w) + length bs"
  by (induction bs arbitrary: w) (simp_all add: control_state)

text \<open>
  Claim C1. The gate hands the command to \<open>runMotors\<close> unchanged exactly when the
  absolute value of the angle is below 30, and calls \<open>stopMotors\<close> otherwise; it
  changes nothing else. So it runs the motors at -29.9, 0 and 29.9 and stops them at
  30, 30.1, -30, 90 and -90. In every cycle the motor driver receives exactly one
  call: the output of the controller when the filtered angle is below 30 in absolute
  value, the stop otherwise.
\<close>

theorem gate_decision:
  "gate a c w = w\<lparr>motors := motors w @ [if \<bar>a\<bar> < 30 then RunMotors c else StopMotors]\<rparr> \<and>
   (motors (gate a c w) = motors w @ [RunMotors c] \<longleftrightarrow> \<bar>a\<bar> < 30) \<and>
   (motors (gate a c w) = motors w @ [StopMotors] \<longleftrightarrow> \<not> \<bar>a\<bar> < 30) \<and>
   motors (gate (- 29.9) c w) = motors w @ [RunMotors c] \<and>
   motors (gate 0 c w) = motors w @ [RunMotors c] \<and>
   motors (gate 29.9 c w) = motors w @ [RunMotors c] \<and>
   motors (gate 30.0 c w) = motors w @ [StopMotors] \<and>
   motors (gate 30.1 c w) = motors w @ [StopMotors] \<and>
   motors (gate (- 30.0) c w) = motors w @ [StopMotors] \<and>
   motors (gate 90 c w) = motors w @ [StopMotors] \<and>
   motors (gate (- 90) c w) = motors w @ [StopMotors] \<and>
   motors (snd (loop hw b w)) =
     motors w @ [if \<bar>kalmanAngle (fst (loop hw b w))\<bar> < 30
                 then RunMotors (pidOutput (fst (loop hw b w))) else StopMotors] \<and>
   pidOutput (fst (loop hw b w)) =
     fst (updatePID hw (pid w) (kalmanAngle (fst (loop hw b w))) (dt_sec (fst (loop hw b w))))"
proof -
  have g: "motors (gate x c w) = motors w @ [if \<bar>x\<bar> < 30 then RunMotors c else StopMotors]" for x
    by (simp add: gate_motors)
  show ?thesis
    by (intro conjI) (simp_all add: g gate_motors control_state(5) control_locals(9) [symmetric])
qed

theorem gate_decision_witness:
  "motors (gate 29.9 7 (power_on (0::real) ())) = [RunMotors 7] \<and>
   motors (gate 30 7 (power_on (0::real) ())) = [StopMotors]"
  using gate_decision [of "29.9" 7 "power_on (0::real) ()" "bench (resting 0)" 0]
    gate_decision [of 30 7 "power_on (0::real) ()" "bench (resting 0)" 0]
  by (simp add: power_on_fields)


lemma micros_after:
  "micros (snd (loop hw b w)) = micros w + word_of_nat (b + 15000)"
  by (simp add: micros_def control_state(4) add.assoc)

lemma next_delta:
  "dt_usec (fst (loop hw b' (snd (loop hw b w)))) = word_of_nat (b + 15000)"
  by (simp only: control_locals(2) control_state(3) micros_after) simp

text \<open>
  Claim C6. The clock is read once, at the start of the cycle, and that value is
  what \<open>oldTime\<close> holds at the end. The cycle then lasts its busy time and the 15 ms
  of the delay, so the next cycle measures exactly that, modulo \<open>2^32\<close>
  microseconds; unless this is 0, \<open>oldTime\<close> differs from the clock at the end of
  the cycle.
\<close>

theorem timestamp_of_cycle_start:
  "time (fst (loop hw b w)) = micros w \<and>
   dt_usec (fst (loop hw b w)) = micros w - oldTime w \<and>
   dt_sec (fst (loop hw b w)) = real (unat (dt_usec (fst (loop hw b w)))) / 1000000 \<and>
   oldTime (snd (loop hw b w)) = micros w \<and>
   clock (snd (loop hw b w)) = clock w + b + 15000 \<and>
   dt_usec (fst (loop hw b' (snd (loop hw b w)))) = word_of_nat (b + 15000) \<and>
   unat (dt_usec (fst (loop hw b' (snd (loop hw b w))))) = (b + 15000) mod 2 ^ 32 \<and>
   ((b + 15000) mod 2 ^ 32 \<noteq> 0 \<longrightarrow>
      oldTime (snd (loop hw b w)) \<noteq> micros (snd (loop hw b w)))"
proof -
  have u: "unat (word_of_nat (b + 15000) :: ulong) = (b + 15000) mod 2 ^ 32"
    unfolding unat_of_nat by simp
  have ne: "micros w \<noteq> micros w + word_of_nat (b + 15000)"
    if "(b + 15000) mod 2 ^ 32 \<noteq> 0"
  proof
    assume "micros w = micros w + word_of_nat (b + 15000)"
    then have "(word_of_nat (b + 15000) :: ulong) = 0" by simp
    then have "unat (word_of_nat (b + 15000) :: ulong) = 0" by simp
    with u that show False by simp
  qed
  have t1: "time (fst (loop hw b w)) = micros w"
    by (rule control_locals(1))
  have t2: "dt_usec (fst (loop hw b w)) = micros w - oldTime w"
    by (rule control_locals(2))
  have t3: "dt_sec (fst (loop hw b w)) = real (unat (dt_usec (fst (loop hw b w)))) / 1000000"
    by (simp only: control_locals(2,3))
  have t4: "oldTime (snd (loop hw b w)) = micros w"
    by (rule control_state(3))
  have t5: "clock (snd (loop hw b w)) = clock w + b + 15000"
    by (rule control_state(4))
  have t6: "dt_usec (fst (loop hw b' (snd (loop hw b w)))) = word_of_nat (b + 15000)"
    by (rule next_delta)
  have t7: "unat (dt_usec (fst (loop hw b' (snd (loop hw b w))))) = (b + 15000) mod 2 ^ 32"
    by (simp only: next_delta u)
  have t8: "(b + 15000) mod 2 ^ 32 \<noteq> 0 \<longrightarrow>
      oldTime (snd (loop hw b w)) \<noteq> micros (snd (loop hw b w))"
    unfolding control_state(3) micros_after using ne by blast
  show ?thesis
    by (intro conjI t1 t2 t3 t4 t5 t6 t7 t8)
qed

theorem timestamp_of_cycle_start_witness:
  "oldTime (snd (loop (bench (resting 0)) 2500 (power_on 0 ()))) = 0 \<and>
   micros (snd (loop (bench (resting 0)) 2500 (power_on 0 ()))) = 17500 \<and>
   dt_usec (fst (loop (bench (resting 0)) 900
      (snd (loop (bench (resting 0)) 2500 (power_on 0 ()))))) = 17500"
proof -
  have m: "micros (power_on (0::real) ()) = 0"
    by (simp add: micros_def power_on_fields)
  have c: "micros (snd (loop (bench (resting 0)) 2500 (power_on 0 ()))) =
      word_of_nat (clock (snd (loop (bench (resting 0)) 2500 (power_on 0 ()))))"
    by (simp add: micros_def)
  show ?thesis
    using timestamp_of_cycle_start [of "bench (resting 0)" 2500 "power_on 0 ()" 900]
    by (simp add: m c power_on_fields)
qed

text \<open>
  Claim C7. \<open>readSensor\<close>, one cycle and any number of cycles leave the six offsets
  as they are, so after startup they stay those that calibration computed. In the
  cycle that follows any number of cycles, the accelerations and the rate that go into
  \<open>getAccAngle\<close> and the filter are the scaled corrected readings: the next raw
  sample minus these offsets (reduced to 16 bits), never the raw sample itself.
\<close>

theorem offsets_fixed_and_applied:
  "offsets (readSensor hw w) = offsets w \<and>
   offsets (snd (loop hw b w)) = offsets w \<and>
   offsets (cycles hw bs w) = offsets w \<and>
   (\<forall>w1. arduino_setup hw w0 = Running w1 \<longrightarrow>
      offsets w1 = offsets (calibrate hw w0) \<and>
      firmware hw bs w0 = Running (cycles hw bs w1) \<and>
      offsets (cycles hw bs w1) = offsets (calibrate hw w0)) \<and>
   accX (fst (loop hw b (cycles hw bs w))) =
     real_of_int (wrap16 (sint (s_ax (getMotion6 hw (reads w + length bs))) - sint (ax_offset w)))
       * 9.81 / 16384 \<and>
   accZ (fst (loop hw b (cycles hw bs w))) =
     real_of_int (wrap16 (sint (s_az (getMotion6 hw (reads w + length bs))) - sint (az_offset w)))
       * 9.81 / 16384 \<and>
   gyroYRate (fst (loop hw b (cycles hw bs w))) =
     real_of_int (wrap16 (sint (s_gy (getMotion6 hw (reads w + length bs))) - sint (gy_offset w)))
       / 131.072 \<and>
   accAngle (fst (loop hw b (cycles hw bs w))) =
     getAccAngle (accX (fst (loop hw b (cycles hw bs w)))) (accZ (fst (loop hw b (cycles hw bs w)))) \<and>
   kalmanAngle (fst (loop hw b (cycles hw bs w))) =
     fst (kalman_getAngle hw (KFilter (cycles hw bs w))
            (accAngle (fst (loop hw b (cycles hw bs w))))
            (gyroYRate (fst (loop hw b (cycles hw bs w))))
            (dt_sec (fst (loop hw b (cycles hw bs w)))))"
proof -
  have o: "ax_offset (cycles hw bs w) = ax_offset w" "az_offset (cycles hw bs w) = az_offset w"
    "gy_offset (cycles hw bs w) = gy_offset w"
    using cycles_state(1) [of hw bs w] by (simp_all add: offsets_def)
  have s: "\<forall>w1. arduino_setup hw w0 = Running w1 \<longrightarrow>
      offsets w1 = offsets (calibrate hw w0) \<and>
      firmware hw bs w0 = Running (cycles hw bs w1) \<and>
      offsets (cycles hw bs w1) = offsets (calibrate hw w0)"
  proof (intro allI impI)
    fix w1 assume r: "arduino_setup hw w0 = Running w1"
    have "testConnection hw"
    proof (rule ccontr)
      assume "\<not> testConnection hw"
      from setup_halts [OF this, of w0] r show False by simp
    qed
    from setup_runs [OF this, of w0] r have "offsets w1 = offsets (calibrate hw w0)"
      by auto
    then show "offsets w1 = offsets (calibrate hw w0) \<and>
      firmware hw bs w0 = Running (cycles hw bs w1) \<and>
      offsets (cycles hw bs w1) = offsets (calibrate hw w0)"
      by (simp add: firmware_def r cycles_state(1))
  qed
  have v: "accX (fst (loop hw b (cycles hw bs w))) =
     real_of_int (wrap16 (sint (s_ax (getMotion6 hw (reads w + length bs))) - sint (ax_offset w)))
       * 9.81 / 16384"
   "accZ (fst (loop hw b (cycles hw bs w))) =
     real_of_int (wrap16 (sint (s_az (getMotion6 hw (reads w + length bs))) - sint (az_offset w)))
       * 9.81 / 16384"
   "gyroYRate (fst (loop hw b (cycles hw bs w))) =
     real_of_int (wrap16 (sint (s_gy (getMotion6 hw (reads w + length bs))) - sint (gy_offset w)))
       / 131.072"
    by (simp_all only: control_locals(4,5,6) readSensor_values cycles_state(2) o)
  show ?thesis
    using s v control_locals(7,8) [of hw b "cycles hw bs w"]
    by (simp only: readSensor_state(1) control_state(1) cycles_state(1))
qed


theorem offsets_fixed_and_applied_witness:
  "(\<exists>w1. arduino_setup (bench (resting 16000)) (power_on 0 ()) = Running w1 \<and>
      offsets (cycles (bench (resting 16000)) [2500, 900] w1) =
        offsets (calibrate (bench (resting 16000)) (power_on 0 ()))) \<and>
   accX (fst (loop (bench (resting 16000)) 700
      (cycles (bench (resting 16000)) [2500, 900] ((power_on 0 ())\<lparr>ax_offset := - 384\<rparr>)))) = 9.81"
proof -
  let ?B = "bench (resting 16000)"
  from setup_runs [of ?B "power_on 0 ()"] obtain w1 where
    r: "arduino_setup ?B (power_on 0 ()) = Running w1"
    by (auto simp: bench_fields)
  have a: "sint (s_ax (getMotion6 ?B n)) = 16000" for n
    by (simp add: bench_fields resting_fields)
  have o: "sint (ax_offset ((power_on (0::real) ())\<lparr>ax_offset := - 384\<rparr>)) = - 384"
    by simp
  have w: "wrap16 (16000 - (- 384)) = 16384"
    by (simp add: wrap16_def)
  note t = offsets_fixed_and_applied [of ?B _ 700 "[2500, 900]" "power_on 0 ()"]
  have "offsets (cycles ?B [2500, 900] w1) = offsets (calibrate ?B (power_on 0 ()))"
    using t [of "power_on 0 ()"] r by blast
  moreover have "accX (fst (loop ?B 700 (cycles ?B [2500, 900] ((power_on 0 ())\<lparr>ax_offset := - 384\<rparr>)))) = 9.81"
  proof -
    let ?W = "(power_on (0::real) ())\<lparr>ax_offset := - 384\<rparr>"
    have "accX (fst (loop ?B 700 (cycles ?B [2500, 900] ?W))) =
        real_of_int (wrap16 (sint (s_ax (getMotion6 ?B (reads ?W + length [2500, 900::nat])))
          - sint (ax_offset ?W))) * 9.81 / 16384"
      using t [of ?W] by blast
    also have "\<dots> = real_of_int (wrap16 (16000 - (- 384))) * 9.81 / 16384"
      by (simp only: a o)
    also have "\<dots> = 16384 * 9.81 / 16384"
      by (simp only: w of_int_numeral)
    also have "\<dots> = 9.81"
      by (rule nonzero_mult_div_cancel_left) simp
    finally show ?thesis .
  qed
  ultimately show ?thesis
    using r by blast
qed

text \<open>
  Claim C8. If the connection test fails, startup halts right after \<open>initMotors\<close>:
  no sample is read, no delay is run, the offsets and \<open>oldTime\<close> are untouched, the
  motor driver has received its initialisation and nothing else, and the program stays
  there however long it runs. If the test succeeds, startup calibrates (512 samples)
  and the control loop runs, one sample and one motor call per cycle.
\<close>

theorem connectivity_gate:
  "(\<not> testConnection hw \<longrightarrow>
      arduino_setup hw w = Halted (initMotors w) \<and>
      firmware hw bs w = Halted (initMotors w) \<and>
      reads (initMotors w) = reads w \<and>
      waits (initMotors w) = waits w \<and>
      offsets (initMotors w) = offsets w \<and>
      oldTime (initMotors w) = oldTime w \<and>
      motors (initMotors w) = motors w @ [InitMotors]) \<and>
   (testConnection hw \<longrightarrow>
      (\<exists>w1. arduino_setup hw w = Running w1 \<and>
            reads w1 = reads w + 512 \<and>
            offsets w1 = offsets (calibrate hw w) \<and>
            motors w1 = motors w @ [InitMotors] \<and>
            firmware hw bs w = Running (cycles hw bs w1) \<and>
            reads (cycles hw bs w1) = reads w + 512 + length bs \<and>
            length (motors (cycles hw bs w1)) = length (motors w) + 1 + length bs))"
proof (intro conjI impI)
  assume c: "testConnection hw"
  from setup_runs [OF c, of w] obtain w1 where
    w1: "arduino_setup hw w = Running w1" "reads w1 = reads w + 512"
      "offsets w1 = offsets (calibrate hw w)" "motors w1 = motors w @ [InitMotors]"
    by blast
  have "firmware hw bs w = Running (cycles hw bs w1)"
    by (simp add: firmware_def w1(1))
  moreover have "reads (cycles hw bs w1) = reads w + 512 + length bs"
    by (simp add: cycles_state(2) w1(2))
  moreover have "length (motors (cycles hw bs w1)) = length (motors w) + 1 + length bs"
    by (simp add: cycles_state(3) w1(4))
  ultimately show "\<exists>w1. arduino_setup hw w = Running w1 \<and>
            reads w1 = reads w + 512 \<and>
            offsets w1 = offsets (calibrate hw w) \<and>
            motors w1 = motors w @ [InitMotors] \<and>
            firmware hw bs w = Running (cycles hw bs w1) \<and>
            reads (cycles hw bs w1) = reads w + 512 + length bs \<and>
            length (motors (cycles hw bs w1)) = length (motors w) + 1 + length bs"
    using w1 by blast
qed (simp_all add: setup_halts firmware_def initMotors_def offsets_def)

theorem connectivity_gate_witness:
  "firmware ((bench (resting 16000))\<lparr>testConnection := False\<rparr>) [2500, 900] (power_on 0 ()) =
     Halted (initMotors (power_on 0 ())) \<and>
   motors (initMotors (power_on (0::real) ())) = [InitMotors] \<and>
   reads (initMotors (power_on (0::real) ())) = 0 \<and>
   (\<exists>w1. firmware (bench (resting 16000)) [2500, 900] (power_on 0 ()) =
           Running (cycles (bench (resting 16000)) [2500, 900] w1) \<and>
         reads (cycles (bench (resting 16000)) [2500, 900] w1) = 514)"
proof -
  have f: "\<not> testConnection ((bench (resting 16000))\<lparr>testConnection := False\<rparr>)"
    by simp
  have t: "testConnection (bench (resting 16000))"
    by (simp add: bench_fields)
  from connectivity_gate [of "(bench (resting 16000))\<lparr>testConnection := False\<rparr>"
      "power_on 0 ()" "[2500, 900]"] f
  have "firmware ((bench (resting 16000))\<lparr>testConnection := False\<rparr>) [2500, 900] (power_on 0 ()) =
     Halted (initMotors (power_on 0 ())) \<and>
   motors (initMotors (power_on (0::real) ())) = [InitMotors] \<and>
   reads (initMotors (power_on (0::real) ())) = 0"
    by (simp add: power_on_fields)
  moreover from connectivity_gate [of "bench (resting 16000)" "power_on 0 ()" "[2500, 900]"] t
  have "\<exists>w1. firmware (bench (resting 16000)) [2500, 900] (power_on 0 ()) =
           Running (cycles (bench (resting 16000)) [2500, 900] w1) \<and>
         reads (cycles (bench (resting 16000)) [2500, 900] w1) = 514"
    by (auto simp: power_on_fields)
  ultimately show ?thesis by blast
qed

subsection \<open>The angle from the accelerometer\<close>

lemma hyp_ratio:
  fixes x y :: real
  assumes "x \<noteq> 0"
  shows "sqrt (1 + (y / x)\<^sup>2) = sqrt (x\<^sup>2 + y\<^sup>2) / \<bar>x\<bar>"
proof -
  have "1 + (y / x)\<^sup>2 = (x\<^sup>2 + y\<^sup>2) / x\<^sup>2"
    using assms by (simp add: power_divide add_divide_distrib)
  then show ?thesis
    by (simp add: real_sqrt_divide)
qed

lemma polar_arctan:
  fixes x y :: real
  assumes "x \<noteq> 0"
  shows "sqrt (x\<^sup>2 + y\<^sup>2) * cos (arctan (y / x)) = \<bar>x\<bar>"
    and "sqrt (x\<^sup>2 + y\<^sup>2) * sin (arctan (y / x)) = \<bar>x\<bar> * (y / x)"
proof -
  have r: "sqrt (x\<^sup>2 + y\<^sup>2) > 0"
    using assms by (simp add: sum_power2_gt_zero_iff)
  show "sqrt (x\<^sup>2 + y\<^sup>2) * cos (arctan (y / x)) = \<bar>x\<bar>"
    using r assms by (simp add: cos_arctan hyp_ratio [OF assms])
  show "sqrt (x\<^sup>2 + y\<^sup>2) * sin (arctan (y / x)) = \<bar>x\<bar> * (y / x)"
    using r assms by (simp add: sin_arctan hyp_ratio [OF assms])
qed

lemma atan2_polar:
  assumes "x \<noteq> 0 \<or> y \<noteq> 0"
  shows "sqrt (x\<^sup>2 + y\<^sup>2) * cos (atan2 y x) = x"
    and "sqrt (x\<^sup>2 + y\<^sup>2) * sin (atan2 y x) = y"
proof -
  consider "0 < x" | "x < 0" "0 \<le> y" | "x < 0" "y < 0" | "x = 0" "0 < y" | "x = 0" "y < 0"
    using assms by linarith
  then have "sqrt (x\<^sup>2 + y\<^sup>2) * cos (atan2 y x) = x \<and>
             sqrt (x\<^sup>2 + y\<^sup>2) * sin (atan2 y x) = y"
  proof cases
    case 1
    then show ?thesis
      using polar_arctan [of x y] by (simp add: atan2_def)
  next
    case 2
    then show ?thesis
      using polar_arctan [of x y] by (simp add: atan2_def)
  next
    case 3
    then show ?thesis
      using polar_arctan [of x y] by (simp add: atan2_def)
  next
    case 4
    then show ?thesis by (simp add: atan2_def)
  next
    case 5
    then show ?thesis by (simp add: atan2_def)
  qed
  then show "sqrt (x\<^sup>2 + y\<^sup>2) * cos (atan2 y x) = x"
    and "sqrt (x\<^sup>2 + y\<^sup>2) * sin (atan2 y x) = y"
    by simp_all
qed

lemma atan2_range: "- pi < atan2 y x \<and> atan2 y x \<le> pi"
proof -
  have b: "- (pi / 2) < arctan (y / x)" "arctan (y / x) < pi / 2"
    by (rule arctan_lbound, rule arctan_ubound)
  have neg: "arctan (y / x) \<le> 0" if "x < 0" "0 \<le> y"
    using that by (simp add: divide_nonneg_neg)
  have pos: "0 < arctan (y / x)" if "x < 0" "y < 0"
    using that by (simp add: divide_neg_neg)
  show ?thesis
    using b neg pos pi_gt_zero by (auto simp: atan2_def)
qed


lemma getAccAngle_radians: "getAccAngle x z * pi / 180 = atan2 x (- z)"
  by (simp add: getAccAngle_def RAD_TO_DEG_def)

lemma getAccAngle_range: "- 180 < getAccAngle x z" "getAccAngle x z \<le> 180"
proof -
  define a where "a = atan2 x (- z)"
  have a: "- pi < a" "a \<le> pi"
    using atan2_range [of x "- z"] by (simp_all add: a_def)
  have g: "getAccAngle x z = a * 180 / pi"
    by (simp add: getAccAngle_def RAD_TO_DEG_def a_def)
  have "- 180 * pi < a * 180" "a * 180 \<le> 180 * pi"
    using a by simp_all
  then have "- 180 < a * 180 / pi" "a * 180 / pi \<le> 180"
    using pi_gt_zero by (simp_all only: pos_less_divide_eq pos_divide_le_eq)
  then show "- 180 < getAccAngle x z" "getAccAngle x z \<le> 180"
    by (simp_all only: g)
qed

text \<open>
  Claim C5. \<open>getAccAngle\<close> is a function of its two arguments alone: the
  four-quadrant arc tangent of \<open>(accX, -accZ)\<close>, in degrees. It is 0 at \<open>(0, -1)\<close>,
  90 at \<open>(1, 0)\<close>, -90 at \<open>(-1, 0)\<close> and 180 at \<open>(0, 1)\<close>. Its value always lies
  in \<open>(-180, 180]\<close>, and unless both arguments are 0 it is the angle of the point:
  its sine and cosine, times the length of the vector, give \<open>accX\<close> and \<open>-accZ\<close>
  back, which fixes the quadrant, also when one argument is 0.
\<close>

theorem getAccAngle_quadrants:
  "getAccAngle x z = atan2 x (- z) * (180 / pi) \<and>
   getAccAngle 0 (- 1) = 0 \<and>
   getAccAngle 1 0 = 90 \<and>
   getAccAngle (- 1) 0 = - 90 \<and>
   getAccAngle 0 1 = 180 \<and>
   - 180 < getAccAngle x z \<and> getAccAngle x z \<le> 180 \<and>
   (x \<noteq> 0 \<or> z \<noteq> 0 \<longrightarrow>
      sqrt (x\<^sup>2 + z\<^sup>2) * sin (getAccAngle x z * pi / 180) = x \<and>
      sqrt (x\<^sup>2 + z\<^sup>2) * cos (getAccAngle x z * pi / 180) = - z)"
proof -
  have v: "getAccAngle 0 (- 1) = 0" "getAccAngle 1 0 = 90" "getAccAngle (- 1) 0 = - 90"
    "getAccAngle 0 1 = 180"
    by (simp_all add: getAccAngle_def RAD_TO_DEG_def atan2_def)
  have p: "sqrt (x\<^sup>2 + z\<^sup>2) * sin (getAccAngle x z * pi / 180) = x \<and>
      sqrt (x\<^sup>2 + z\<^sup>2) * cos (getAccAngle x z * pi / 180) = - z"
    if "x \<noteq> 0 \<or> z \<noteq> 0"
  proof -
    from that have "- z \<noteq> 0 \<or> x \<noteq> 0" by auto
    from atan2_polar [OF this] show ?thesis
      by (simp add: getAccAngle_radians add.commute)
  qed
  show ?thesis
    using v p getAccAngle_range [of x z]
    by (simp add: getAccAngle_def RAD_TO_DEG_def)
qed

theorem getAccAngle_quadrants_witness:
  "5 * sin (getAccAngle 3 4 * pi / 180) = 3 \<and>
   5 * cos (getAccAngle 3 4 * pi / 180) = - 4 \<and>
   90 < getAccAngle 3 4 \<and> getAccAngle 3 4 \<le> 180"
proof -
  have r: "sqrt (3\<^sup>2 + 4\<^sup>2) = (5::real)"
    by (rule real_sqrt_unique) simp_all
  have c: "5 * cos (getAccAngle 3 4 * pi / 180) = - 4" and s: "5 * sin (getAccAngle 3 4 * pi / 180) = 3"
    and u: "getAccAngle 3 4 \<le> 180"
    using getAccAngle_quadrants [of 3 4, THEN conjunct2] by (simp_all add: r)
  have "90 < getAccAngle 3 4"
  proof (rule ccontr)
    assume "\<not> 90 < getAccAngle 3 4"
    then have "getAccAngle 3 4 * pi / 180 \<le> pi / 2"
      using pi_gt_zero by (simp add: field_simps)
    moreover have "- (pi / 2) \<le> getAccAngle 3 4 * pi / 180"
    proof -
      have "atan2 3 (- 4) = arctan (3 / - 4) + pi"
        by (simp add: atan2_def)
      with arctan_lbound [of "3 / - 4"] pi_gt_zero have "0 \<le> atan2 3 (- 4)"
        by linarith
      with pi_gt_zero have "- (pi / 2) \<le> atan2 3 (- 4)"
        by linarith
      then show ?thesis
        by (simp only: getAccAngle_radians)
    qed
    ultimately have "0 \<le> cos (getAccAngle 3 4 * pi / 180)"
      by (rule cos_ge_zero [rotated])
    with c show False by simp
  qed
  with c s u show ?thesis by simp
qed

end
